theory Spec2Isabelle
  imports Main "HOL-Library.Sublist"
begin

section \<open>JavaScript strings\<close>

text \<open>
  A string is a list of characters. A character stands for one code unit below 256, so
  the white space of the regular expression class \<open>\s\<close> and of \<open>trim\<close> is the set
  TAB, LF, VT, FF, CR, SPACE and NBSP; white space beyond that range is outside the model.
\<close>

definition NL :: char where
  "NL = CHR 0x0A"

definition CR :: char where
  "CR = CHR 0x0D"

definition isWhiteSpace :: "char \<Rightarrow> bool" where
  "isWhiteSpace c =
     (c = CHR 0x09 \<or> c = CHR 0x0A \<or> c = CHR 0x0B \<or> c = CHR 0x0C \<or> c = CHR 0x0D
      \<or> c = CHR 0x20 \<or> c = CHR 0xA0)"

definition trim :: "string \<Rightarrow> string" where
  "trim s = rev (dropWhile isWhiteSpace (rev (dropWhile isWhiteSpace s)))"

definition startsWith :: "string \<Rightarrow> string \<Rightarrow> bool" where
  "startsWith p s = (take (length p) s = p)"

definition endsWith :: "string \<Rightarrow> string \<Rightarrow> bool" where
  "endsWith p s = (length p \<le> length s \<and> drop (length s - length p) s = p)"

definition includesChar :: "char \<Rightarrow> string \<Rightarrow> bool" where
  "includesChar c s = (c \<in> set s)"

text \<open>\<open>s.substring(a, b)\<close>: both indices are clamped to the length and swapped when
  the first is the larger one.\<close>

definition substring :: "string \<Rightarrow> nat \<Rightarrow> nat \<Rightarrow> string" where
  "substring s a b =
     (let a' = min a (length s); b' = min b (length s);
          lo = min a' b'; hi = max a' b'
      in take (hi - lo) (drop lo s))"

text \<open>\<open>s.lastIndexOf(p)\<close>, with \<open>None\<close> for -1.\<close>

fun lastIndexOf :: "string \<Rightarrow> string \<Rightarrow> nat option" where
  "lastIndexOf p [] = (if p = [] then Some 0 else None)"
| "lastIndexOf p (c # cs) =
     (case lastIndexOf p cs of
        Some i \<Rightarrow> Some (Suc i)
      | None \<Rightarrow> if startsWith p (c # cs) then Some 0 else None)"

text \<open>\<open>xs.join(sep)\<close>.\<close>

fun joinWith :: "string \<Rightarrow> string list \<Rightarrow> string" where
  "joinWith sep [] = []"
| "joinWith sep [x] = x"
| "joinWith sep (x # y # ys) = x @ sep @ joinWith sep (y # ys)"

text \<open>The pieces of a text between its line breaks, where a line break is CR LF, CR or
  LF. The result is never empty, so the first branch of the \<open>case\<close> is never taken.\<close>

fun splitLineBreaks :: "string \<Rightarrow> string list" where
  "splitLineBreaks [] = [[]]"
| "splitLineBreaks [c] = (if c = NL \<or> c = CR then [[], []] else [[c]])"
| "splitLineBreaks (c # d # cs) =
     (if c = CR \<and> d = NL then [] # splitLineBreaks cs
      else if c = CR \<or> c = NL then [] # splitLineBreaks (d # cs)
      else (case splitLineBreaks (d # cs) of [] \<Rightarrow> [[c]] | l # ls \<Rightarrow> (c # l) # ls))"

text \<open>\<open>s.split(/\r?\n/)\<close>: a line ends at LF or at CR LF.\<close>

fun splitNewlines :: "string \<Rightarrow> string list" where
  "splitNewlines [] = [[]]"
| "splitNewlines [c] = (if c = NL then [[], []] else [[c]])"
| "splitNewlines (c # d # cs) =
     (if c = NL then [] # splitNewlines (d # cs)
      else if c = CR \<and> d = NL then [] # splitNewlines cs
      else (case splitNewlines (d # cs) of [] \<Rightarrow> [[c]] | l # ls \<Rightarrow> (c # l) # ls))"

text \<open>Decimal rendering of a number, as a template literal does it.\<close>

definition digitChar :: "nat \<Rightarrow> char" where
  "digitChar n = char_of (48 + n)"

function showNat :: "nat \<Rightarrow> string" where
  "showNat n = (if n < 10 then [digitChar n] else showNat (n div 10) @ [digitChar (n mod 10)])"
  by pat_completeness auto
termination
  by (relation "measure id") auto

declare showNat.simps [simp del]

section \<open>The editor surface\<close>

text \<open>
  The text buffer, its positions and its edit operation belong to the host editor. A
  document is held the way the editor hands it to an extension: its lines, each without
  its line end, and the line end of the document (LF or CRLF). There is always at least
  one line, so the first line is a field of its own. \<open>lineAt\<close> throws on a line that
  does not exist, \<open>getText\<close> joins the lines with the document's line end and clamps a
  range to the document, and an insertion splits the inserted text at its line breaks
  (CRLF, CR or LF) and splices the pieces in at the clamped position.
\<close>

datatype error = Error string

datatype end_of_line = LF | CRLF

record text_document =
  firstLine :: string
  otherLines :: "string list"
  eol :: end_of_line

record position =
  line :: nat
  character :: nat

record selection =
  anchor :: position
  active :: position

record editor =
  document :: text_document
  languageId :: string
  selection :: selection

fun eolText :: "end_of_line \<Rightarrow> string" where
  "eolText LF = [NL]"
| "eolText CRLF = [CR, NL]"

definition docLines :: "text_document \<Rightarrow> string list" where
  "docLines doc = firstLine doc # otherLines doc"

definition lineCount :: "text_document \<Rightarrow> nat" where
  "lineCount doc = length (docLines doc)"

definition lineAt :: "text_document \<Rightarrow> nat \<Rightarrow> error + string" where
  "lineAt doc n =
     (if n < lineCount doc then Inr (docLines doc ! n)
      else Inl (Error ''Illegal value for `line`''))"

definition isBeforeOrEqual :: "position \<Rightarrow> position \<Rightarrow> bool" where
  "isBeforeOrEqual p q = (line p < line q \<or> (line p = line q \<and> character p \<le> character q))"

definition isEmpty :: "selection \<Rightarrow> bool" where
  "isEmpty s = (anchor s = active s)"

definition selStart :: "selection \<Rightarrow> position" where
  "selStart s = (if isBeforeOrEqual (anchor s) (active s) then anchor s else active s)"

definition selEnd :: "selection \<Rightarrow> position" where
  "selEnd s = (if isBeforeOrEqual (anchor s) (active s) then active s else anchor s)"

definition validatePosition :: "text_document \<Rightarrow> position \<Rightarrow> position" where
  "validatePosition doc p =
     (if line p \<ge> lineCount doc
      then \<lparr>line = lineCount doc - 1, character = length (last (docLines doc))\<rparr>
      else \<lparr>line = line p, character = min (character p) (length (docLines doc ! line p))\<rparr>)"

text \<open>\<open>doc.getText()\<close> joins the lines with the line end; \<open>doc.getText(range)\<close>
  takes the tail of the first line, the lines between and the head of the last line.\<close>

definition getText :: "text_document \<Rightarrow> string" where
  "getText doc = joinWith (eolText (eol doc)) (docLines doc)"

definition getTextRange :: "text_document \<Rightarrow> position \<Rightarrow> position \<Rightarrow> string" where
  "getTextRange doc p q =
     (let s = validatePosition doc p; e = validatePosition doc q; ls = docLines doc in
      if s = e then []
      else if line s = line e then substring (ls ! line s) (character s) (character e)
      else joinWith (eolText (eol doc))
             ([drop (character s) (ls ! line s)]
              @ take (line e - line s - 1) (drop (line s + 1) ls)
              @ [take (character e) (ls ! line e)]))"

definition firstNonWhitespaceCharacterIndex :: "string \<Rightarrow> nat" where
  "firstNonWhitespaceCharacterIndex lineText = length (takeWhile isWhiteSpace lineText)"

definition isEmptyOrWhitespace :: "string \<Rightarrow> bool" where
  "isEmptyOrWhitespace lineText = (firstNonWhitespaceCharacterIndex lineText = length lineText)"

text \<open>\<open>lineText.match(/^(\s*)/)?.[1] || ''\<close>: the leading white space of a line.\<close>

definition leadingWhitespace :: "string \<Rightarrow> string" where
  "leadingWhitespace lineText = takeWhile isWhiteSpace lineText"


text \<open>
  \<open>editor.edit(b => b.insert(pos, text))\<close>: the only edit the extension makes. The
  line of the position is cut at the position's column; the first piece of the inserted
  text continues the part before the cut, the last piece is continued by the part after
  it, and the pieces between become lines of their own.
\<close>

definition spliceLines :: "string \<Rightarrow> string list \<Rightarrow> string \<Rightarrow> string list" where
  "spliceLines pre pieces post =
     (case pieces of
        [] \<Rightarrow> [pre @ post]
      | [x] \<Rightarrow> [pre @ x @ post]
      | x # y # ys \<Rightarrow> (pre @ x) # butlast (y # ys) @ [last (y # ys) @ post])"

definition setLines :: "text_document \<Rightarrow> string list \<Rightarrow> text_document" where
  "setLines doc ls =
     (case ls of
        [] \<Rightarrow> doc\<lparr>firstLine := [], otherLines := []\<rparr>
      | l # rest \<Rightarrow> doc\<lparr>firstLine := l, otherLines := rest\<rparr>)"

definition insertAt :: "text_document \<Rightarrow> position \<Rightarrow> string \<Rightarrow> text_document" where
  "insertAt doc p inserted =
     (let v = validatePosition doc p; ls = docLines doc; l = ls ! line v
      in setLines doc
           (take (line v) ls
            @ spliceLines (take (character v) l) (splitLineBreaks inserted) (drop (character v) l)
            @ drop (line v + 1) ls))"

section \<open>Language configurations\<close>

record comment_style =
  commentStart :: string
  commentEnd :: string
  linePrefix :: "string option"

record prompt_settings =
  subject :: string
  style :: string
  rules :: "string list"
  emptyCodeResponse :: string

text \<open>The field \<open>definitionKeywords\<close> is the \<open>test\<close> function of the
  configuration's regular expression.\<close>

record language_config =
  languageIds :: "string list"
  definitionKeywords :: "string \<Rightarrow> bool"
  commentStyle :: comment_style
  promptSettings :: prompt_settings

definition whiteSpaceAt :: "nat \<Rightarrow> string \<Rightarrow> bool" where
  "whiteSpaceAt i s = (i < length s \<and> isWhiteSpace (s ! i))"

text \<open>\<open>/^\s*((async\s)?def|class)\s+/\<close>\<close>

definition pythonDefinitionKeywords :: "string \<Rightarrow> bool" where
  "pythonDefinitionKeywords lineText =
     (let r = dropWhile isWhiteSpace lineText in
      (startsWith ''async'' r \<and> whiteSpaceAt 5 r \<and> startsWith ''def'' (drop 6 r) \<and> whiteSpaceAt 9 r)
      \<or> (startsWith ''def'' r \<and> whiteSpaceAt 3 r)
      \<or> (startsWith ''class'' r \<and> whiteSpaceAt 5 r))"

definition asciiLower :: "char \<Rightarrow> char" where
  "asciiLower c =
     (if 65 \<le> (of_char c :: nat) \<and> (of_char c :: nat) \<le> 90
      then char_of ((of_char c :: nat) + 32) else c)"

definition startsWithIgnoreCase :: "string \<Rightarrow> string \<Rightarrow> bool" where
  "startsWithIgnoreCase p s = (map asciiLower (take (length p) s) = map asciiLower p)"

definition isNameChar :: "char \<Rightarrow> bool" where
  "isNameChar c =
     (let n = (of_char c :: nat) in
      (97 \<le> n \<and> n \<le> 122) \<or> (65 \<le> n \<and> n \<le> 90) \<or> (48 \<le> n \<and> n \<le> 57)
      \<or> c = CHR ''_'' \<or> c = CHR ''-'')"

text \<open>After a keyword: \<open>\s+([a-zA-Z0-9_-]+)\<close>; the optional parameter list and the
  trailing \<open>\s*\<close> of the expression match the empty string and decide nothing.\<close>

definition nameFollows :: "string \<Rightarrow> bool" where
  "nameFollows rest =
     (whiteSpaceAt 0 rest \<and>
      (case dropWhile isWhiteSpace rest of [] \<Rightarrow> False | c # _ \<Rightarrow> isNameChar c))"

text \<open>\<open>/^\s*(function|filter|workflow|configuration)\s+([a-zA-Z0-9_-]+)(?:\s*\(.*?\))?\s*/i\<close>\<close>

definition powershellDefinitionKeywords :: "string \<Rightarrow> bool" where
  "powershellDefinitionKeywords lineText =
     (let r = dropWhile isWhiteSpace lineText in
      (startsWithIgnoreCase ''function'' r \<and> nameFollows (drop 8 r))
      \<or> (startsWithIgnoreCase ''filter'' r \<and> nameFollows (drop 6 r))
      \<or> (startsWithIgnoreCase ''workflow'' r \<and> nameFollows (drop 8 r))
      \<or> (startsWithIgnoreCase ''configuration'' r \<and> nameFollows (drop 13 r)))"

definition pythonConfig :: language_config where
  \<open>pythonConfig =
     \<lparr>languageIds = [''python''],
      definitionKeywords = pythonDefinitionKeywords,
      commentStyle = \<lparr>commentStart = ''"""'', commentEnd = ''"""'', linePrefix = None\<rparr>,
      promptSettings =
        \<lparr>subject = ''function or class'',
         style = ''Google's style for Python docstrings'',
         rules = [''Use triple quotes.'',
                  ''Do not exceed 88 characters per line, including indentation.''],
         emptyCodeResponse = ''Generic __init__.py.''\<rparr>\<rparr>\<close>

definition powershellConfig :: language_config where
  "powershellConfig =
     \<lparr>languageIds = [''powershell''],
      definitionKeywords = powershellDefinitionKeywords,
      commentStyle = \<lparr>commentStart = ''<#'', commentEnd = ''#>'', linePrefix = Some ''  ''\<rparr>,
      promptSettings =
        \<lparr>subject = ''function'',
         style = ''PowerShell comment-based help'',
         rules = [''Use <# and #> block comment.'',
                  ''Include .SYNOPSIS, .DESCRIPTION, .PARAMETER, .EXAMPLE, and .NOTES sections.'',
                  ''Block MUST have ONLY one <#, at the start, and ONLY one #>, at the end.''],
         emptyCodeResponse = ''.SYNOPSIS'' @ [NL] @ ''  A brief summary of the function.''\<rparr>\<rparr>"

definition LANGUAGE_CONFIGS :: "(string \<times> language_config) list" where
  "LANGUAGE_CONFIGS = [(''python'', pythonConfig), (''powershell'', powershellConfig)]"

section \<open>Region detection\<close>

record code_context =
  code :: string
  isModuleLevel :: bool
  codeRange :: "position \<times> position"
  indentation :: string
  definitionLine :: nat

text \<open>The test that makes the upward walk throw: the visited line is not blank and
  ends with neither a comma nor a colon.\<close>

definition strictCheckFails :: "string \<Rightarrow> bool" where
  "strictCheckFails lineText =
     (\<not> endsWith '','' lineText \<and> \<not> endsWith '':'' lineText \<and> length (trim lineText) > 0)"

text \<open>The loop \<open>while (startLineNum >= 0)\<close>: \<open>Some n\<close> is the line it stopped at,
  \<open>None\<close> is \<open>startLineNum < 0\<close> after the loop.\<close>

fun findDefinitionStart :: "language_config \<Rightarrow> text_document \<Rightarrow> nat \<Rightarrow> error + nat option" where
  "findDefinitionStart languageConfig doc 0 =
     (case lineAt doc 0 of
        Inl e \<Rightarrow> Inl e
      | Inr lineText \<Rightarrow>
          if definitionKeywords languageConfig lineText then Inr (Some 0)
          else if strictCheckFails lineText then Inl (Error ''Could not find a definition.'')
          else Inr None)"
| "findDefinitionStart languageConfig doc (Suc n) =
     (case lineAt doc (Suc n) of
        Inl e \<Rightarrow> Inl e
      | Inr lineText \<Rightarrow>
          if definitionKeywords languageConfig lineText then Inr (Some (Suc n))
          else if strictCheckFails lineText then Inl (Error ''Could not find a definition.'')
          else findDefinitionStart languageConfig doc n)"

text \<open>The loop \<open>while (endLineNum < doc.lineCount)\<close>.\<close>

function findBlockEnd :: "text_document \<Rightarrow> nat \<Rightarrow> nat \<Rightarrow> nat" where
  "findBlockEnd doc defIndent endLineNum =
     (if endLineNum < lineCount doc then
        (if \<not> isEmptyOrWhitespace (docLines doc ! endLineNum)
            \<and> firstNonWhitespaceCharacterIndex (docLines doc ! endLineNum) \<le> defIndent
         then endLineNum
         else findBlockEnd doc defIndent (Suc endLineNum))
      else endLineNum)"
  by pat_completeness auto
termination
  by (relation "measure (\<lambda>(doc, defIndent, endLineNum). lineCount doc - endLineNum)") auto

declare findBlockEnd.simps [simp del]

definition getCodeToDocument :: "editor \<Rightarrow> language_config \<Rightarrow> error + code_context option" where
  "getCodeToDocument ed languageConfig =
     (let doc = document ed; sel = selection ed in
      if isEmpty sel \<and> line (active sel) = 0 \<and> character (active sel) = 0 then
        Inr (Some \<lparr>code = getText doc,
                   isModuleLevel = True,
                   codeRange = (\<lparr>line = 0, character = 0\<rparr>,
                                \<lparr>line = lineCount doc - 1, character = length (last (docLines doc))\<rparr>),
                   indentation = [],
                   definitionLine = 0\<rparr>)
      else if \<not> isEmpty sel then
        (case lineAt doc (line (selStart sel)) of
           Inl e \<Rightarrow> Inl e
         | Inr defLine \<Rightarrow>
             Inr (Some \<lparr>code = getTextRange doc (selStart sel) (selEnd sel),
                        isModuleLevel = False,
                        codeRange = (selStart sel, selEnd sel),
                        indentation = leadingWhitespace defLine,
                        definitionLine = line (selStart sel)\<rparr>))
      else
        (case findDefinitionStart languageConfig doc (line (active sel)) of
           Inl e \<Rightarrow> Inl e
         | Inr None \<Rightarrow> Inr None
         | Inr (Some startLineNum) \<Rightarrow>
             (case lineAt doc startLineNum of
                Inl e \<Rightarrow> Inl e
              | Inr defLine \<Rightarrow>
                  (let defIndent = firstNonWhitespaceCharacterIndex defLine;
                       endLineNum = findBlockEnd doc defIndent (startLineNum + 1);
                       p = \<lparr>line = startLineNum, character = 0\<rparr>;
                       q = \<lparr>line = endLineNum, character = 0\<rparr>
                   in Inr (Some \<lparr>code = getTextRange doc p q,
                                  isModuleLevel = False,
                                  codeRange = (p, q),
                                  indentation = leadingWhitespace defLine,
                                  definitionLine = startLineNum\<rparr>)))))"

section \<open>Insertion\<close>

text \<open>The loops \<open>while (signatureEndLine < lineCount - 1 && !lineAt(signatureEndLine).text.includes(marker))\<close>.\<close>

function findSignatureEnd :: "char \<Rightarrow> text_document \<Rightarrow> nat \<Rightarrow> nat" where
  "findSignatureEnd marker doc signatureEndLine =
     (if signatureEndLine < lineCount doc - 1
         \<and> \<not> includesChar marker (docLines doc ! signatureEndLine)
      then findSignatureEnd marker doc (Suc signatureEndLine)
      else signatureEndLine)"
  by pat_completeness auto
termination
  by (relation "measure (\<lambda>(marker, doc, signatureEndLine). lineCount doc - 1 - signatureEndLine)") auto

declare findSignatureEnd.simps [simp del]

text \<open>The character that ends a signature: \<open>':'\<close> when the configuration is for
  Python, \<open>'{'\<close> when it is for PowerShell, none otherwise (no loop runs then).\<close>

definition blockOpenMarker :: "language_config \<Rightarrow> char option" where
  "blockOpenMarker languageConfig =
     (if ''python'' \<in> set (languageIds languageConfig) then Some (CHR '':'')
      else if ''powershell'' \<in> set (languageIds languageConfig) then Some (CHR ''{'')
      else None)"

definition signatureEnd :: "language_config \<Rightarrow> text_document \<Rightarrow> nat \<Rightarrow> nat" where
  "signatureEnd languageConfig doc defLineNum =
     (case blockOpenMarker languageConfig of
        Some marker \<Rightarrow> findSignatureEnd marker doc defLineNum
      | None \<Rightarrow> defLineNum)"

text \<open>The text handed to \<open>editBuilder.insert\<close> and the position it is inserted at.\<close>

definition insertPosition :: "text_document \<Rightarrow> code_context \<Rightarrow> language_config \<Rightarrow> position" where
  "insertPosition doc ctx languageConfig =
     (if isModuleLevel ctx
      then \<lparr>line = (if startsWith ''#!'' (docLines doc ! 0) then 1 else 0), character = 0\<rparr>
      else \<lparr>line = signatureEnd languageConfig doc (definitionLine ctx) + 1, character = 0\<rparr>)"

definition insertedText :: "string \<Rightarrow> code_context \<Rightarrow> language_config \<Rightarrow> string" where
  "insertedText docstring ctx languageConfig =
     (let cs = commentStyle languageConfig in
      if isModuleLevel ctx
      then commentStart cs @ [NL] @ docstring @ [NL] @ commentEnd cs @ [NL, NL]
      else
        (let bodyIndent = indentation ctx @ ''    '';
             commentLinePrefix = (case linePrefix cs of None \<Rightarrow> [] | Some p \<Rightarrow> p)
         in bodyIndent @ commentStart cs @ [NL]
            @ joinWith [NL]
                (map (\<lambda>l. if trim l = [] then [] else bodyIndent @ commentLinePrefix @ l)
                     (splitNewlines docstring))
            @ [NL] @ bodyIndent @ commentEnd cs @ [NL, NL]))"

definition insertDocstring :: "editor \<Rightarrow> string \<Rightarrow> code_context \<Rightarrow> language_config \<Rightarrow> editor" where
  "insertDocstring ed docstring ctx languageConfig =
     ed\<lparr>document :=
          insertAt (document ed) (insertPosition (document ed) ctx languageConfig)
            (insertedText docstring ctx languageConfig)\<rparr>"

section \<open>Prompt\<close>

definition buildPrompt :: "string \<Rightarrow> bool \<Rightarrow> language_config \<Rightarrow> string" where
  "buildPrompt codeText moduleLevel languageConfig =
     (let ps = promptSettings languageConfig;
          subj = (if moduleLevel then ''module'' else subject ps);
          ruleLines = joinWith [NL] (map (\<lambda>r. ''- '' @ r) (rules ps));
          lang = (case languageIds languageConfig of [] \<Rightarrow> ''undefined'' | l # _ \<Rightarrow> l)
      in ''Write a '' @ lang @ '' docstring for the following '' @ subj @ ''.'' @ [NL]
         @ ''- Use '' @ style ps @ ''.'' @ [NL]
         @ ruleLines @ [NL]
         @ [NL]
         @ (if moduleLevel then ''Module'' else ''Function/class'') @ '' code:'' @ [NL]
         @ codeText @ [NL]
         @ [NL]
         @ ''- If there is no code provided above, the docstring content MUST be ''
         @ [CHR 0x27] @ emptyCodeResponse ps @ [CHR 0x27] @ ''.'' @ [NL]
         @ [NL]
         @ ''Output only the docstring content, not including the comment markers. ''
         @ ''CRITICALLY IMPORTANT: Do NOT repeat the original code in your response.'')"

section \<open>The generation client\<close>

text \<open>\<open>docstring.replace(/```(?:python|powershell)\s*|```/g, '')\<close>: at every position,
  from left to right, a fence with a language tag and the white space after it, else a
  bare fence, is removed.\<close>

function stripFences :: "string \<Rightarrow> string" where
  "stripFences [] = []"
| "stripFences (c # cs) =
     (if startsWith ''```python'' (c # cs)
      then stripFences (dropWhile isWhiteSpace (drop 9 (c # cs)))
      else if startsWith ''```powershell'' (c # cs)
      then stripFences (dropWhile isWhiteSpace (drop 13 (c # cs)))
      else if startsWith ''```'' (c # cs)
      then stripFences (drop 3 (c # cs))
      else c # stripFences cs)"
  by pat_completeness auto
termination
  by (relation "measure length") (auto intro: le_less_trans [OF length_dropWhile_le])

declare stripFences.simps(2) [simp del]

definition stripTripleQuotes :: "string \<Rightarrow> string" where
  \<open>stripTripleQuotes s =
     (if startsWith ''"""'' s \<and> endsWith ''"""'' s
      then trim (substring s 3 (length s - 3)) else s)\<close>

definition stripOpenMarker :: "string \<Rightarrow> string" where
  "stripOpenMarker s = (if startsWith ''<#'' s then trim (drop 2 s) else s)"

definition truncateAtLastClose :: "string \<Rightarrow> string" where
  "truncateAtLastClose s =
     (case lastIndexOf ''#>'' s of
        None \<Rightarrow> s
      | Some lastClosingIndex \<Rightarrow> trim (substring s 0 lastClosingIndex))"

definition cleanDocstring :: "string \<Rightarrow> string" where
  "cleanDocstring docstring =
     truncateAtLastClose (stripOpenMarker (stripTripleQuotes (trim (stripFences docstring))))"

text \<open>
  The backend is a function from the request to its reply. A reply is a rejected fetch,
  or a response with its status, its body text and what \<open>response.json()\<close> makes of
  the body: not JSON, an object with an \<open>error\<close>, an object whose first candidate has a
  text, or an object without one.
\<close>

record request =
  url :: string
  prompt :: string

datatype payload = InvalidJson string | ErrorObject string | Candidate string | NoCandidateText

datatype reply = Rejected string | Response nat string payload

definition geminiRequest :: "string \<Rightarrow> string \<Rightarrow> string \<Rightarrow> request" where
  "geminiRequest endpoint apiKey promptText =
     \<lparr>url = endpoint @ ''?key='' @ apiKey, prompt = promptText\<rparr>"

definition callGeminiAPI :: "(request \<Rightarrow> reply) \<Rightarrow> string \<Rightarrow> string \<Rightarrow> string \<Rightarrow> error + string" where
  "callGeminiAPI fetch endpoint apiKey promptText =
     (case fetch (geminiRequest endpoint apiKey promptText) of
        Rejected msg \<Rightarrow> Inl (Error msg)
      | Response status errorText json \<Rightarrow>
          if \<not> (200 \<le> status \<and> status \<le> 299)
          then Inl (Error (''API request failed with status '' @ showNat status @ '': '' @ errorText))
          else
            (case json of
               InvalidJson msg \<Rightarrow> Inl (Error msg)
             | ErrorObject message \<Rightarrow> Inl (Error (''API returned an error: '' @ message))
             | NoCandidateText \<Rightarrow>
                 Inl (Error ''Unexpected API response format. Could not extract docstring.'')
             | Candidate docstring \<Rightarrow> Inr (cleanDocstring docstring)))"

section \<open>The command\<close>

datatype notification = ErrorMessage string | WarningMessage string | InformationMessage string

text \<open>What one run of the command leaves behind: the editor, the requests sent to the
  backend, the docstring handed to \<open>insertDocstring\<close> (if it ran) and the message shown.\<close>

record outcome =
  editorAfter :: "editor option"
  requests :: "request list"
  inserted :: "string option"
  shown :: notification

definition unset :: "string option \<Rightarrow> bool" where
  "unset v = (case v of None \<Rightarrow> True | Some s \<Rightarrow> s = [])"

definition findLanguageConfig :: "string \<Rightarrow> language_config option" where
  "findLanguageConfig langId =
     find (\<lambda>config. langId \<in> set (languageIds config)) (map snd LANGUAGE_CONFIGS)"

definition endpointOf :: "string \<Rightarrow> string" where
  "endpointOf model =
     ''https://generativelanguage.googleapis.com/v1beta/models/'' @ model @ '':generateContent''"

definition generateDocstring ::
  "(request \<Rightarrow> reply) \<Rightarrow> string option \<Rightarrow> string option \<Rightarrow> editor option \<Rightarrow> outcome" where
  "generateDocstring fetch configModel configApiKey activeTextEditor =
     (case activeTextEditor of
        None \<Rightarrow>
          \<lparr>editorAfter = None, requests = [], inserted = None,
           shown = ErrorMessage ''No active editor found.''\<rparr>
      | Some ed \<Rightarrow>
          (case findLanguageConfig (languageId ed) of
             None \<Rightarrow>
               \<lparr>editorAfter = Some ed, requests = [], inserted = None,
                shown = WarningMessage
                  (''Docstring generation is not supported for '' @ [CHR 0x27] @ languageId ed
                   @ [CHR 0x27] @ '' files.'')\<rparr>
           | Some languageConfig \<Rightarrow>
               if unset configModel \<or> unset configApiKey then
                 \<lparr>editorAfter = Some ed, requests = [], inserted = None,
                  shown = ErrorMessage
                    (''Please set '' @ [CHR 0x27] @ ''aidocswriter.model'' @ [CHR 0x27] @ '' and ''
                     @ [CHR 0x27] @ ''aidocswriter.apiKey'' @ [CHR 0x27] @ '' in your settings.'')\<rparr>
               else
                 (let apiKey = the configApiKey;
                      endpoint = endpointOf (the configModel)
                  in case getCodeToDocument ed languageConfig of
                       Inl (Error msg) \<Rightarrow>
                         \<lparr>editorAfter = Some ed, requests = [], inserted = None,
                          shown = ErrorMessage (''Error generating docstring: '' @ msg)\<rparr>
                     | Inr None \<Rightarrow>
                         \<lparr>editorAfter = Some ed, requests = [], inserted = None,
                          shown = ErrorMessage
                            (''Could not determine the code to document. ''
                             @ ''Please select a function/class or place your cursor inside one.'')\<rparr>
                     | Inr (Some codeContext) \<Rightarrow>
                         if trim (getText (document ed)) = [] \<and> isModuleLevel codeContext then
                           \<lparr>editorAfter =
                              Some (insertDocstring ed
                                      (emptyCodeResponse (promptSettings languageConfig))
                                      codeContext languageConfig),
                            requests = [],
                            inserted = Some (emptyCodeResponse (promptSettings languageConfig)),
                            shown = InformationMessage ''Docstring generated successfully!''\<rparr>
                         else
                           (let promptText = buildPrompt (code codeContext)
                                               (isModuleLevel codeContext) languageConfig
                            in case callGeminiAPI fetch endpoint apiKey promptText of
                                 Inl (Error msg) \<Rightarrow>
                                   \<lparr>editorAfter = Some ed,
                                    requests = [geminiRequest endpoint apiKey promptText],
                                    inserted = None,
                                    shown = ErrorMessage (''Error generating docstring: '' @ msg)\<rparr>
                               | Inr docstring \<Rightarrow>
                                   \<lparr>editorAfter =
                                      Some (insertDocstring ed docstring codeContext languageConfig),
                                    requests = [geminiRequest endpoint apiKey promptText],
                                    inserted = Some docstring,
                                    shown = InformationMessage
                                      ''Docstring generated successfully!''\<rparr>))))"

section \<open>The older variant of the detection\<close>

text \<open>
  The repository holds an older variant of the extension, for Python only. Its
  \<open>getCodeToDocument\<close> has the same three cases; its upward walk tests the pattern
  \<open>/^\s*((async)?\s*def|class)\s+/\<close> and has no check that throws.
\<close>

definition legacyDefinitionKeywords :: "string \<Rightarrow> bool" where
  "legacyDefinitionKeywords lineText =
     (let r = dropWhile isWhiteSpace lineText in
      (startsWith ''async'' r
         \<and> startsWith ''def'' (dropWhile isWhiteSpace (drop 5 r))
         \<and> whiteSpaceAt 3 (dropWhile isWhiteSpace (drop 5 r)))
      \<or> (startsWith ''def'' r \<and> whiteSpaceAt 3 r)
      \<or> (startsWith ''class'' r \<and> whiteSpaceAt 5 r))"

fun legacyFindDefinitionStart :: "text_document \<Rightarrow> nat \<Rightarrow> error + nat option" where
  "legacyFindDefinitionStart doc 0 =
     (case lineAt doc 0 of
        Inl e \<Rightarrow> Inl e
      | Inr lineText \<Rightarrow> if legacyDefinitionKeywords lineText then Inr (Some 0) else Inr None)"
| "legacyFindDefinitionStart doc (Suc n) =
     (case lineAt doc (Suc n) of
        Inl e \<Rightarrow> Inl e
      | Inr lineText \<Rightarrow>
          if legacyDefinitionKeywords lineText then Inr (Some (Suc n))
          else legacyFindDefinitionStart doc n)"

definition legacyGetCodeToDocument :: "editor \<Rightarrow> error + code_context option" where
  "legacyGetCodeToDocument ed =
     (let doc = document ed; sel = selection ed in
      if isEmpty sel \<and> line (active sel) = 0 \<and> character (active sel) = 0 then
        Inr (Some \<lparr>code = getText doc,
                   isModuleLevel = True,
                   codeRange = (\<lparr>line = 0, character = 0\<rparr>,
                                \<lparr>line = lineCount doc - 1, character = length (last (docLines doc))\<rparr>),
                   indentation = [],
                   definitionLine = 0\<rparr>)
      else if \<not> isEmpty sel then
        (case lineAt doc (line (selStart sel)) of
           Inl e \<Rightarrow> Inl e
         | Inr defLine \<Rightarrow>
             Inr (Some \<lparr>code = getTextRange doc (selStart sel) (selEnd sel),
                        isModuleLevel = False,
                        codeRange = (selStart sel, selEnd sel),
                        indentation = leadingWhitespace defLine,
                        definitionLine = line (selStart sel)\<rparr>))
      else
        (case legacyFindDefinitionStart doc (line (active sel)) of
           Inl e \<Rightarrow> Inl e
         | Inr None \<Rightarrow> Inr None
         | Inr (Some startLineNum) \<Rightarrow>
             (case lineAt doc startLineNum of
                Inl e \<Rightarrow> Inl e
              | Inr defLine \<Rightarrow>
                  (let defIndent = firstNonWhitespaceCharacterIndex defLine;
                       endLineNum = findBlockEnd doc defIndent (startLineNum + 1);
                       p = \<lparr>line = startLineNum, character = 0\<rparr>;
                       q = \<lparr>line = endLineNum, character = 0\<rparr>
                   in Inr (Some \<lparr>code = getTextRange doc p q,
                                  isModuleLevel = False,
                                  codeRange = (p, q),
                                  indentation = leadingWhitespace defLine,
                                  definitionLine = startLineNum\<rparr>)))))"

section \<open>Concrete inputs\<close>

text \<open>A cursor is an empty selection.\<close>

definition cursorAt :: "nat \<Rightarrow> nat \<Rightarrow> selection" where
  "cursorAt l c = \<lparr>anchor = \<lparr>line = l, character = c\<rparr>, active = \<lparr>line = l, character = c\<rparr>\<rparr>"

definition scenarioB :: text_document where
  "scenarioB = \<lparr>firstLine = ''def f(x):'', otherLines = [''    return x''], eol = LF\<rparr>"

definition noBodyDoc :: text_document where
  "noBodyDoc = \<lparr>firstLine = ''def f():'', otherLines = [''x = 1''], eol = LF\<rparr>"

definition noBodyDocCRLF :: text_document where
  "noBodyDocCRLF = \<lparr>firstLine = ''def f():'', otherLines = [''x = 1''], eol = CRLF\<rparr>"

definition signatureDoc :: text_document where
  "signatureDoc = \<lparr>firstLine = ''def f(a,'', otherLines = [''      b):'', ''    pass''], eol = CRLF\<rparr>"

definition emptyDoc :: text_document where
  "emptyDoc = \<lparr>firstLine = [], otherLines = [], eol = LF\<rparr>"

definition braceDoc :: text_document where
  "braceDoc = \<lparr>firstLine = ''function Foo'', otherLines = [''{''], eol = CRLF\<rparr>"

definition sampleSelection :: selection where
  "sampleSelection = \<lparr>anchor = \<lparr>line = 1, character = 4\<rparr>, active = \<lparr>line = 1, character = 10\<rparr>\<rparr>"

definition scenarioBEditor :: editor where
  "scenarioBEditor = \<lparr>document = scenarioB, languageId = ''python'', selection = cursorAt 0 4\<rparr>"

definition scenarioBContext :: code_context where
  "scenarioBContext =
     \<lparr>code = ''def f(x):'' @ [NL] @ ''    return x'', isModuleLevel = False,
      codeRange = (\<lparr>line = 0, character = 0\<rparr>, \<lparr>line = 2, character = 0\<rparr>),
      indentation = [], definitionLine = 0\<rparr>"

definition failingBackend :: "request \<Rightarrow> reply" where
  "failingBackend r = Response 429 ''quota exceeded'' (ErrorObject ''quota exceeded'')"

definition echoingBackend :: "string \<Rightarrow> request \<Rightarrow> reply" where
  "echoingBackend answer r = Response 200 [] (Candidate answer)"

definition sixQuotes :: string where
  \<open>sixQuotes = ''""""""a""""""''\<close>

definition threeQuotes :: string where
  \<open>threeQuotes = ''"""a"""''\<close>

definition fencedAnswer :: string where
  "fencedAnswer = ''```python'' @ [NL] @ ''Return x.'' @ [NL] @ ''```''"

definition echoedAnswer :: string where
  "echoedAnswer = ''Return x.'' @ [NL] @ ''#>'' @ [NL] @ ''def f(x):''"

definition scenarioBAfter :: text_document where
  \<open>scenarioBAfter =
     \<lparr>firstLine = ''def f(x):'',
      otherLines = [''    """'', ''    Return x.'', ''    """'', [], ''    return x''],
      eol = LF\<rparr>\<close>

section \<open>Documents\<close>

lemma docLines_not_Nil: "docLines doc \<noteq> []"
  by (simp add: docLines_def)


lemma last_line_nth: "last (docLines doc) = docLines doc ! (lineCount doc - 1)"
  by (simp add: last_conv_nth docLines_not_Nil lineCount_def)

lemma scenarioB_lines: "docLines scenarioB = [''def f(x):'', ''    return x'']"
  by (simp add: scenarioB_def docLines_def)

lemma noBodyDoc_lines: "docLines noBodyDoc = [''def f():'', ''x = 1'']"
  by (simp add: noBodyDoc_def docLines_def)

section \<open>Module mode\<close>

text \<open>
  C5. With an empty selection and the cursor at line 0, column 0, detection returns, for
  every buffer (the empty one included) and every configuration, a context whose code is
  the whole text of the buffer, at module level, with empty indentation and definition
  line 0.
\<close>

theorem module_mode_detection:
  assumes "isEmpty (selection ed)"
    and "active (selection ed) = \<lparr>line = 0, character = 0\<rparr>"
  shows "\<exists>ctx. getCodeToDocument ed languageConfig = Inr (Some ctx)
           \<and> code ctx = getText (document ed) \<and> isModuleLevel ctx
           \<and> indentation ctx = [] \<and> definitionLine ctx = 0"
  using assms by (simp add: getCodeToDocument_def Let_def)

theorem module_mode_detection_witness:
  "isEmpty (cursorAt 0 0)
   \<and> active (cursorAt 0 0) = \<lparr>line = 0, character = 0\<rparr>
   \<and> getText emptyDoc = []
   \<and> (\<exists>ctx. getCodeToDocument
              \<lparr>document = emptyDoc, languageId = ''python'', selection = cursorAt 0 0\<rparr>
              pythonConfig = Inr (Some ctx)
          \<and> code ctx = getText emptyDoc \<and> isModuleLevel ctx \<and> indentation ctx = []
          \<and> definitionLine ctx = 0)"
proof -
  let ?ed = "\<lparr>document = emptyDoc, languageId = ''python'', selection = cursorAt 0 0\<rparr>"
  have e: "isEmpty (cursorAt 0 0)" by (simp add: cursorAt_def isEmpty_def)
  have a: "active (cursorAt 0 0) = \<lparr>line = 0, character = 0\<rparr>" by (simp add: cursorAt_def)
  have t: "getText emptyDoc = []" by (simp add: getText_def emptyDoc_def docLines_def)
  from module_mode_detection [of ?ed pythonConfig] e a
  have "\<exists>ctx. getCodeToDocument ?ed pythonConfig = Inr (Some ctx)
           \<and> code ctx = getText emptyDoc \<and> isModuleLevel ctx
           \<and> indentation ctx = [] \<and> definitionLine ctx = 0"
    by simp
  then show ?thesis using e a t by blast
qed

section \<open>Selection mode\<close>

text \<open>
  C6. For every non-empty selection that starts on a line of the buffer, detection returns
  a context whose code is exactly the text \<open>getText\<close> gives for the selection (nothing
  trimmed, expanded or re-indented), not at module level, whose indentation is the leading
  white space of the line the selection starts on, and whose definition line is the
  selection's start line.
\<close>

theorem selection_mode_detection:
  assumes "\<not> isEmpty (selection ed)"
    and "line (selStart (selection ed)) < lineCount (document ed)"
  shows "\<exists>ctx. getCodeToDocument ed languageConfig = Inr (Some ctx)
           \<and> code ctx = getTextRange (document ed) (selStart (selection ed)) (selEnd (selection ed))
           \<and> \<not> isModuleLevel ctx
           \<and> indentation ctx
               = takeWhile isWhiteSpace (docLines (document ed) ! line (selStart (selection ed)))
           \<and> definitionLine ctx = line (selStart (selection ed))"
  using assms by (simp add: getCodeToDocument_def lineAt_def leadingWhitespace_def Let_def)

theorem selection_mode_detection_witness:
  "\<not> isEmpty sampleSelection
   \<and> line (selStart sampleSelection) < lineCount scenarioB
   \<and> (\<exists>ctx. getCodeToDocument
              \<lparr>document = scenarioB, languageId = ''python'', selection = sampleSelection\<rparr>
              pythonConfig = Inr (Some ctx)
          \<and> code ctx = ''return'' \<and> \<not> isModuleLevel ctx \<and> indentation ctx = ''    ''
          \<and> definitionLine ctx = 1)"
proof -
  let ?ed = "\<lparr>document = scenarioB, languageId = ''python'', selection = sampleSelection\<rparr>"
  have ne: "\<not> isEmpty sampleSelection"
    by (simp add: sampleSelection_def isEmpty_def)
  have s: "selStart sampleSelection = \<lparr>line = 1, character = 4\<rparr>"
    and e: "selEnd sampleSelection = \<lparr>line = 1, character = 10\<rparr>"
    by (simp_all add: sampleSelection_def selStart_def selEnd_def isBeforeOrEqual_def)
  have inb: "line (selStart sampleSelection) < lineCount scenarioB"
    by (simp add: s lineCount_def scenarioB_lines)
  have seltext: "getTextRange scenarioB (selStart sampleSelection) (selEnd sampleSelection) = ''return''"
    unfolding s e
    by (simp add: getTextRange_def validatePosition_def lineCount_def scenarioB_lines Let_def
        substring_def)
  have dl: "line (selStart sampleSelection) = 1"
    by (simp add: s)
  have ind: "takeWhile isWhiteSpace (docLines scenarioB ! 1) = ''    ''"
    by (simp add: scenarioB_lines isWhiteSpace_def)
  from selection_mode_detection [of ?ed pythonConfig] ne inb
  obtain ctx where "getCodeToDocument ?ed pythonConfig = Inr (Some ctx)"
    and "code ctx = getTextRange scenarioB (selStart sampleSelection) (selEnd sampleSelection)"
    and "\<not> isModuleLevel ctx"
    and "indentation ctx = takeWhile isWhiteSpace (docLines scenarioB ! line (selStart sampleSelection))"
    and "definitionLine ctx = line (selStart sampleSelection)"
    by auto
  then show ?thesis
    using ne inb unfolding seltext dl ind by blast
qed

section \<open>The upward walk\<close>

lemma findDefinitionStart_abort_iff:
  assumes "n < lineCount doc"
  shows "(findDefinitionStart cfg doc n = Inl e) =
         (e = Error ''Could not find a definition.'' \<and>
          (\<exists>j\<le>n. strictCheckFails (docLines doc ! j) \<and>
                 (\<forall>k. j \<le> k \<and> k \<le> n \<longrightarrow> \<not> definitionKeywords cfg (docLines doc ! k))))"
  using assms
proof (induction n)
  case 0
  then show ?case by (auto simp: lineAt_def)
next
  case (Suc n)
  let ?l = "docLines doc ! Suc n"
  from Suc.prems have n: "n < lineCount doc" by simp
  show ?case
  proof (cases "definitionKeywords cfg ?l")
    case True
    then show ?thesis using Suc.prems by (auto simp: lineAt_def)
  next
    case nd: False
    show ?thesis
    proof (cases "strictCheckFails ?l")
      case True
      then show ?thesis using Suc.prems nd
        by (auto simp: lineAt_def intro!: exI [of _ "Suc n"] dest: le_antisym)
    next
      case False
      have "findDefinitionStart cfg doc (Suc n) = findDefinitionStart cfg doc n"
        using Suc.prems nd False by (simp add: lineAt_def)
      moreover have "(\<exists>j\<le>Suc n. strictCheckFails (docLines doc ! j) \<and>
                 (\<forall>k. j \<le> k \<and> k \<le> Suc n \<longrightarrow> \<not> definitionKeywords cfg (docLines doc ! k)))
          = (\<exists>j\<le>n. strictCheckFails (docLines doc ! j) \<and>
                 (\<forall>k. j \<le> k \<and> k \<le> n \<longrightarrow> \<not> definitionKeywords cfg (docLines doc ! k)))"
        using nd False by (metis le_Suc_eq)
      ultimately show ?thesis using Suc.IH [OF n] by simp
    qed
  qed
qed

lemma findDefinitionStart_found_iff:
  assumes "n < lineCount doc"
  shows "(findDefinitionStart cfg doc n = Inr (Some d)) =
         (d \<le> n \<and> definitionKeywords cfg (docLines doc ! d) \<and>
          (\<forall>k. d < k \<and> k \<le> n \<longrightarrow>
               \<not> definitionKeywords cfg (docLines doc ! k) \<and> \<not> strictCheckFails (docLines doc ! k)))"
  using assms
proof (induction n)
  case 0
  then show ?case by (auto simp: lineAt_def)
next
  case (Suc n)
  let ?l = "docLines doc ! Suc n"
  from Suc.prems have n: "n < lineCount doc" by simp
  show ?case
  proof (cases "definitionKeywords cfg ?l")
    case True
    then show ?thesis using Suc.prems
      by (auto simp: lineAt_def) (metis le_Suc_eq not_less_eq_eq le_neq_implies_less)
  next
    case nd: False
    show ?thesis
    proof (cases "strictCheckFails ?l")
      case True
      then show ?thesis using Suc.prems nd
        by (auto simp: lineAt_def) (metis le_Suc_eq le_neq_implies_less le_refl)
    next
      case False
      have "findDefinitionStart cfg doc (Suc n) = findDefinitionStart cfg doc n"
        using Suc.prems nd False by (simp add: lineAt_def)
      moreover have "(d \<le> Suc n \<and> definitionKeywords cfg (docLines doc ! d) \<and>
          (\<forall>k. d < k \<and> k \<le> Suc n \<longrightarrow>
               \<not> definitionKeywords cfg (docLines doc ! k) \<and> \<not> strictCheckFails (docLines doc ! k)))
          = (d \<le> n \<and> definitionKeywords cfg (docLines doc ! d) \<and>
          (\<forall>k. d < k \<and> k \<le> n \<longrightarrow>
               \<not> definitionKeywords cfg (docLines doc ! k) \<and> \<not> strictCheckFails (docLines doc ! k)))"
        using nd False by (metis le_Suc_eq)
      ultimately show ?thesis using Suc.IH [OF n] by simp
    qed
  qed
qed

lemma findDefinitionStart_none_iff:
  assumes "n < lineCount doc"
  shows "(findDefinitionStart cfg doc n = Inr None) =
         (\<forall>k\<le>n. \<not> definitionKeywords cfg (docLines doc ! k) \<and> \<not> strictCheckFails (docLines doc ! k))"
  using assms
proof (induction n)
  case 0
  then show ?case by (auto simp: lineAt_def)
next
  case (Suc n)
  from Suc.prems have n: "n < lineCount doc" by simp
  show ?case using Suc.prems Suc.IH [OF n]
    by (auto simp: lineAt_def le_Suc_eq)
qed

lemma findDefinitionStart_found_less:
  "n < lineCount doc \<Longrightarrow> findDefinitionStart cfg doc n = Inr (Some d) \<Longrightarrow> d < lineCount doc"
  by (simp add: findDefinitionStart_found_iff)

lemma enclosing_mode_unfold:
  assumes "isEmpty (selection ed)"
    and "active (selection ed) \<noteq> \<lparr>line = 0, character = 0\<rparr>"
  shows "getCodeToDocument ed cfg =
     (case findDefinitionStart cfg (document ed) (line (active (selection ed))) of
           Inl e \<Rightarrow> Inl e
         | Inr None \<Rightarrow> Inr None
         | Inr (Some startLineNum) \<Rightarrow>
             (case lineAt (document ed) startLineNum of
                Inl e \<Rightarrow> Inl e
              | Inr defLine \<Rightarrow>
                  (let defIndent = firstNonWhitespaceCharacterIndex defLine;
                       endLineNum = findBlockEnd (document ed) defIndent (startLineNum + 1);
                       p = \<lparr>line = startLineNum, character = 0\<rparr>;
                       q = \<lparr>line = endLineNum, character = 0\<rparr>
                   in Inr (Some \<lparr>code = getTextRange (document ed) p q,
                                  isModuleLevel = False,
                                  codeRange = (p, q),
                                  indentation = leadingWhitespace defLine,
                                  definitionLine = startLineNum\<rparr>))))"
proof -
  have "\<not> (isEmpty (selection ed) \<and> line (active (selection ed)) = 0
            \<and> character (active (selection ed)) = 0)"
    using assms(2) by (cases "active (selection ed)") auto
  then show ?thesis
    unfolding getCodeToDocument_def Let_def using assms(1) by (simp only: if_False not_not if_True simp_thms)
qed

lemma enclosing_walk_cases:
  assumes "isEmpty (selection ed)"
    and "active (selection ed) \<noteq> \<lparr>line = 0, character = 0\<rparr>"
    and "line (active (selection ed)) < lineCount (document ed)"
  shows "(getCodeToDocument ed cfg = Inl (Error ''Could not find a definition.'')) =
           (\<exists>j\<le>line (active (selection ed)).
               trim (docLines (document ed) ! j) \<noteq> []
               \<and> \<not> endsWith '','' (docLines (document ed) ! j)
               \<and> \<not> endsWith '':'' (docLines (document ed) ! j)
               \<and> (\<forall>k. j \<le> k \<and> k \<le> line (active (selection ed))
                     \<longrightarrow> \<not> definitionKeywords cfg (docLines (document ed) ! k)))"
    and "getCodeToDocument ed cfg = Inl e \<Longrightarrow> e = Error ''Could not find a definition.''"
    and "getCodeToDocument ed cfg = Inr None \<Longrightarrow>
           (\<forall>k\<le>line (active (selection ed)). \<not> definitionKeywords cfg (docLines (document ed) ! k))"
    and "getCodeToDocument ed cfg = Inr (Some ctx) \<Longrightarrow>
           definitionLine ctx \<le> line (active (selection ed))
           \<and> definitionKeywords cfg (docLines (document ed) ! definitionLine ctx)
           \<and> (\<forall>k. definitionLine ctx < k \<and> k \<le> line (active (selection ed))
                 \<longrightarrow> \<not> definitionKeywords cfg (docLines (document ed) ! k))"
proof -
  let ?n = "line (active (selection ed))"
  let ?doc = "document ed"
  note unf = enclosing_mode_unfold [OF assms(1,2), of cfg]
  have inl: "(getCodeToDocument ed cfg = Inl x) = (findDefinitionStart cfg ?doc ?n = Inl x)" for x
    using findDefinitionStart_found_less [OF assms(3), of cfg]
    by (auto simp: unf lineAt_def Let_def split: sum.splits option.splits)
  show "(getCodeToDocument ed cfg = Inl (Error ''Could not find a definition.'')) =
           (\<exists>j\<le>?n. trim (docLines ?doc ! j) \<noteq> []
               \<and> \<not> endsWith '','' (docLines ?doc ! j)
               \<and> \<not> endsWith '':'' (docLines ?doc ! j)
               \<and> (\<forall>k. j \<le> k \<and> k \<le> ?n \<longrightarrow> \<not> definitionKeywords cfg (docLines ?doc ! k)))"
    unfolding inl findDefinitionStart_abort_iff [OF assms(3)]
    by (auto simp: strictCheckFails_def)
  show "getCodeToDocument ed cfg = Inl e \<Longrightarrow> e = Error ''Could not find a definition.''"
    unfolding inl findDefinitionStart_abort_iff [OF assms(3)] by simp
  show "getCodeToDocument ed cfg = Inr None \<Longrightarrow>
           (\<forall>k\<le>?n. \<not> definitionKeywords cfg (docLines ?doc ! k))"
    using findDefinitionStart_found_less [OF assms(3), of cfg]
      findDefinitionStart_none_iff [OF assms(3), of cfg]
    by (auto simp: unf lineAt_def Let_def split: sum.splits option.splits)
  show "definitionLine ctx \<le> ?n
           \<and> definitionKeywords cfg (docLines ?doc ! definitionLine ctx)
           \<and> (\<forall>k. definitionLine ctx < k \<and> k \<le> ?n
                 \<longrightarrow> \<not> definitionKeywords cfg (docLines ?doc ! k))"
    if "getCodeToDocument ed cfg = Inr (Some ctx)"
  proof -
    from that obtain d where d: "findDefinitionStart cfg ?doc ?n = Inr (Some d)"
      and "definitionLine ctx = d"
      by (auto simp: unf Let_def split: sum.splits option.splits)
    then show ?thesis
      using findDefinitionStart_found_iff [OF assms(3), of cfg d] by simp
  qed
qed

section \<open>A definition without a body\<close>

lemma findBlockEnd_stop:
  "n < lineCount doc \<Longrightarrow> \<not> isEmptyOrWhitespace (docLines doc ! n) \<Longrightarrow>
   firstNonWhitespaceCharacterIndex (docLines doc ! n) \<le> defIndent \<Longrightarrow>
   findBlockEnd doc defIndent n = n"
  by (subst findBlockEnd.simps) simp

lemma findBlockEnd_eof: "lineCount doc \<le> n \<Longrightarrow> findBlockEnd doc defIndent n = n"
  by (subst findBlockEnd.simps) simp

lemma getTextRange_one_line:
  assumes "d + 1 < lineCount doc"
  shows "getTextRange doc \<lparr>line = d, character = 0\<rparr> \<lparr>line = d + 1, character = 0\<rparr>
         = docLines doc ! d @ eolText (eol doc)"
  using assms by (simp add: getTextRange_def validatePosition_def Let_def)

lemma getTextRange_last_line:
  assumes "d + 1 = lineCount doc"
  shows "getTextRange doc \<lparr>line = d, character = 0\<rparr> \<lparr>line = d + 1, character = 0\<rparr>
         = docLines doc ! d"
proof -
  have "lineCount doc - 1 = d" using assms by simp
  then have "last (docLines doc) = docLines doc ! d"
    by (simp add: last_line_nth)
  then show ?thesis
    using assms by (auto simp: getTextRange_def validatePosition_def Let_def substring_def)
qed

lemma registered_definition_nonempty:
  assumes "cfg \<in> set (map snd LANGUAGE_CONFIGS)"
    and "definitionKeywords cfg lineText"
  shows "lineText \<noteq> []"
proof
  assume "lineText = []"
  moreover have "\<not> pythonDefinitionKeywords []"
    by (simp add: pythonDefinitionKeywords_def startsWith_def)
  moreover have "\<not> powershellDefinitionKeywords []"
    by (simp add: powershellDefinitionKeywords_def startsWithIgnoreCase_def)
  ultimately show False
    using assms by (auto simp: LANGUAGE_CONFIGS_def pythonConfig_def powershellConfig_def)
qed

text \<open>
  C3, as the code has it. When the walk finds the definition line \<open>d\<close> and the next
  line is the end of the buffer or a non-blank line indented no deeper than line \<open>d\<close>,
  detection returns, for every registered configuration, a context whose code is the
  definition line itself, followed by the document's line end when a line follows: the
  region holds the definition line and no body line, and the code is not empty.
\<close>

theorem definition_without_body:
  assumes "isEmpty (selection ed)"
    and "active (selection ed) \<noteq> \<lparr>line = 0, character = 0\<rparr>"
    and "line (active (selection ed)) < lineCount (document ed)"
    and "cfg \<in> set (map snd LANGUAGE_CONFIGS)"
    and "findDefinitionStart cfg (document ed) (line (active (selection ed))) = Inr (Some d)"
    and "d + 1 = lineCount (document ed)
         \<or> (d + 1 < lineCount (document ed)
            \<and> \<not> isEmptyOrWhitespace (docLines (document ed) ! (d + 1))
            \<and> firstNonWhitespaceCharacterIndex (docLines (document ed) ! (d + 1))
                \<le> firstNonWhitespaceCharacterIndex (docLines (document ed) ! d))"
  shows "\<exists>ctx. getCodeToDocument ed cfg = Inr (Some ctx)
           \<and> code ctx = docLines (document ed) ! d
                          @ (if d + 1 < lineCount (document ed)
                             then eolText (eol (document ed)) else [])
           \<and> code ctx \<noteq> []
           \<and> definitionLine ctx = d
           \<and> \<not> isModuleLevel ctx
           \<and> indentation ctx = takeWhile isWhiteSpace (docLines (document ed) ! d)
           \<and> definitionKeywords cfg (docLines (document ed) ! d)"
proof -
  let ?doc = "document ed"
  have dl: "d < lineCount ?doc"
    using findDefinitionStart_found_less [OF assms(3,5)] .
  have isdef: "definitionKeywords cfg (docLines ?doc ! d)"
    using assms(5) findDefinitionStart_found_iff [OF assms(3), of cfg d] by simp
  have ne: "docLines ?doc ! d \<noteq> []"
    using registered_definition_nonempty [OF assms(4) isdef] .
  note unf = enclosing_mode_unfold [OF assms(1,2), of cfg]
  from assms(6) show ?thesis
  proof
    assume eof: "d + 1 = lineCount ?doc"
    have "findBlockEnd ?doc (firstNonWhitespaceCharacterIndex (docLines ?doc ! d)) (d + 1) = d + 1"
      using eof by (simp add: findBlockEnd_eof)
    then show ?thesis
      using dl isdef ne eof getTextRange_last_line [OF eof]
      by (simp add: unf assms(5) lineAt_def Let_def leadingWhitespace_def)
  next
    assume b: "d + 1 < lineCount ?doc
            \<and> \<not> isEmptyOrWhitespace (docLines ?doc ! (d + 1))
            \<and> firstNonWhitespaceCharacterIndex (docLines ?doc ! (d + 1))
                \<le> firstNonWhitespaceCharacterIndex (docLines ?doc ! d)"
    then have "findBlockEnd ?doc (firstNonWhitespaceCharacterIndex (docLines ?doc ! d)) (d + 1) = d + 1"
      by (simp add: findBlockEnd_stop)
    then show ?thesis
      using dl isdef ne b getTextRange_one_line [of d ?doc]
      by (simp add: unf assms(5) lineAt_def Let_def leadingWhitespace_def)
  qed
qed

theorem definition_without_body_witness:
  "isEmpty (cursorAt 0 4)
   \<and> active (cursorAt 0 4) \<noteq> \<lparr>line = 0, character = 0\<rparr>
   \<and> pythonConfig \<in> set (map snd LANGUAGE_CONFIGS)
   \<and> findDefinitionStart pythonConfig noBodyDocCRLF 0 = Inr (Some 0)
   \<and> docLines noBodyDocCRLF = [''def f():'', ''x = 1'']
   \<and> (\<exists>ctx. getCodeToDocument
              \<lparr>document = noBodyDocCRLF, languageId = ''python'', selection = cursorAt 0 4\<rparr>
              pythonConfig = Inr (Some ctx)
          \<and> code ctx = ''def f():'' @ [CR, NL] \<and> code ctx \<noteq> [] \<and> definitionLine ctx = 0)"
proof -
  let ?ed = "\<lparr>document = noBodyDocCRLF, languageId = ''python'', selection = cursorAt 0 4\<rparr>"
  have h1: "isEmpty (selection ?ed)" by (simp add: cursorAt_def isEmpty_def)
  have h2: "active (selection ?ed) \<noteq> \<lparr>line = 0, character = 0\<rparr>" by (simp add: cursorAt_def)
  have ls: "docLines noBodyDocCRLF = [''def f():'', ''x = 1'']"
    by (simp add: noBodyDocCRLF_def docLines_def)
  have h3: "line (active (selection ?ed)) < lineCount (document ?ed)"
    by (simp add: cursorAt_def lineCount_def ls)
  have reg: "pythonConfig \<in> set (map snd LANGUAGE_CONFIGS)"
    by (simp add: LANGUAGE_CONFIGS_def)
  have fd: "findDefinitionStart pythonConfig noBodyDocCRLF 0 = Inr (Some 0)"
    by (simp add: lineAt_def lineCount_def ls pythonConfig_def pythonDefinitionKeywords_def
        startsWith_def whiteSpaceAt_def isWhiteSpace_def)
  have h5: "findDefinitionStart pythonConfig (document ?ed) (line (active (selection ?ed))) = Inr (Some 0)"
    using fd by (simp add: cursorAt_def)
  have h6: "0 + 1 = lineCount (document ?ed)
         \<or> (0 + 1 < lineCount (document ?ed)
            \<and> \<not> isEmptyOrWhitespace (docLines (document ?ed) ! (0 + 1))
            \<and> firstNonWhitespaceCharacterIndex (docLines (document ?ed) ! (0 + 1))
                \<le> firstNonWhitespaceCharacterIndex (docLines (document ?ed) ! 0))"
    by (simp add: lineCount_def ls isEmptyOrWhitespace_def firstNonWhitespaceCharacterIndex_def
        isWhiteSpace_def)
  from definition_without_body [OF h1 h2 h3 reg h5 h6]
  obtain ctx where c: "getCodeToDocument ?ed pythonConfig = Inr (Some ctx)"
    and cc: "code ctx = docLines (document ?ed) ! 0
                         @ (if 0 + 1 < lineCount (document ?ed)
                            then eolText (eol (document ?ed)) else [])"
    and cn: "code ctx \<noteq> []"
    and cd: "definitionLine ctx = 0"
    by blast
  have e: "eol noBodyDocCRLF = CRLF" by (simp add: noBodyDocCRLF_def)
  have cc': "code ctx = ''def f():'' @ [CR, NL]"
    using cc by (simp add: lineCount_def ls e)
  have e: "isEmpty (cursorAt 0 4)" using h1 by simp
  have a: "active (cursorAt 0 4) \<noteq> \<lparr>line = 0, character = 0\<rparr>" using h2 by simp
  show ?thesis
    using e a reg fd ls c cc' cn cd by blast
qed

text \<open>The code of such a context is the definition line, not the empty string.\<close>

theorem definition_without_body_counterexample:
  "getCodeToDocument
     \<lparr>document = noBodyDoc, languageId = ''python'', selection = cursorAt 0 4\<rparr> pythonConfig
   = Inr (Some \<lparr>code = ''def f():'' @ [NL], isModuleLevel = False,
                codeRange = (\<lparr>line = 0, character = 0\<rparr>, \<lparr>line = 1, character = 0\<rparr>),
                indentation = [], definitionLine = 0\<rparr>)
   \<and> ''def f():'' @ [NL] \<noteq> []
   \<and> docLines noBodyDoc = [''def f():'', ''x = 1'']
   \<and> \<not> isEmptyOrWhitespace ''x = 1''
   \<and> firstNonWhitespaceCharacterIndex ''x = 1'' \<le> firstNonWhitespaceCharacterIndex ''def f():''"
  by code_simp

section \<open>The walk under the PowerShell configuration\<close>

text \<open>
  C1. The claim has the walk pass over a line that ends with the block-open marker of the
  configuration. The walk tests for a colon whatever the configuration is: under the
  PowerShell configuration, whose marker is \<open>{\<close>, the cursor on the line \<open>{\<close>
  below \<open>function Foo\<close> makes detection throw, where the same walk under the Python
  configuration passes over the line that closes a signature with \<open>:\<close> and returns
  the context.
\<close>

theorem enclosing_walk_powershell_brace:
  "getCodeToDocument
     \<lparr>document = braceDoc, languageId = ''powershell'', selection = cursorAt 1 0\<rparr>
     powershellConfig
   = Inl (Error ''Could not find a definition.'')
   \<and> docLines braceDoc = [''function Foo'', ''{'']
   \<and> blockOpenMarker powershellConfig = Some (CHR ''{'')
   \<and> endsWith ''{'' ''{''
   \<and> definitionKeywords powershellConfig ''function Foo''
   \<and> getCodeToDocument
       \<lparr>document = signatureDoc, languageId = ''python'', selection = cursorAt 1 0\<rparr>
       pythonConfig
     = Inr (Some \<lparr>code = ''def f(a,'' @ [CR, NL] @ ''      b):'' @ [CR, NL] @ ''    pass'',
                  isModuleLevel = False,
                  codeRange = (\<lparr>line = 0, character = 0\<rparr>, \<lparr>line = 3, character = 0\<rparr>),
                  indentation = [], definitionLine = 0\<rparr>)
   \<and> blockOpenMarker pythonConfig = Some (CHR '':'')"
  by code_simp

section \<open>The cursor inside a body\<close>

text \<open>
  C2. On the buffer \<open>def f(x):\<close>, \<open>    return x\<close> with the cursor on line 1 and
  the Python configuration, detection does not return the region of lines 0 to 1: the walk
  throws on the body line, which is not blank and ends with neither a comma nor a colon;
  the command shows the error, sends nothing to the backend and inserts nothing. The older
  variant of the walk returns the region from the same cursor. From a cursor on the
  definition line the present code returns the same region too, and the insertion puts
  the block at line 1, four columns in, with both lines of the buffer kept.
\<close>

theorem scenarioB_cursor_in_body:
  "getCodeToDocument
     \<lparr>document = scenarioB, languageId = ''python'', selection = cursorAt 1 4\<rparr> pythonConfig
   = Inl (Error ''Could not find a definition.'')
   \<and> generateDocstring fetch (Some ''gemini'') (Some ''key'')
       (Some \<lparr>document = scenarioB, languageId = ''python'', selection = cursorAt 1 4\<rparr>)
     = \<lparr>editorAfter = Some \<lparr>document = scenarioB, languageId = ''python'',
                               selection = cursorAt 1 4\<rparr>,
        requests = [], inserted = None,
        shown = ErrorMessage ''Error generating docstring: Could not find a definition.''\<rparr>
   \<and> legacyGetCodeToDocument
       \<lparr>document = scenarioB, languageId = ''python'', selection = cursorAt 1 4\<rparr>
     = Inr (Some scenarioBContext)
   \<and> getCodeToDocument scenarioBEditor pythonConfig = Inr (Some scenarioBContext)
   \<and> document (insertDocstring scenarioBEditor ''Return x.'' scenarioBContext pythonConfig)
     = scenarioBAfter"
  by code_simp

section \<open>The command\<close>

lemma module_context:
  assumes "isEmpty (selection ed)"
    and "active (selection ed) = \<lparr>line = 0, character = 0\<rparr>"
  shows "getCodeToDocument ed cfg =
         Inr (Some \<lparr>code = getText (document ed), isModuleLevel = True,
                     codeRange = (\<lparr>line = 0, character = 0\<rparr>,
                                  \<lparr>line = lineCount (document ed) - 1,
                                   character = length (last (docLines (document ed)))\<rparr>),
                     indentation = [], definitionLine = 0\<rparr>)"
  using assms by (simp add: getCodeToDocument_def Let_def)

text \<open>
  C7. When the buffer is empty (its text is the empty string), the selection is empty and
  the cursor is at (0,0), the language has a registered configuration and both settings are
  set, the command sends no request to the backend, whatever the backend is, and the
  docstring it hands to the insertion is the configuration's \<open>emptyCodeResponse\<close>.
\<close>

theorem empty_module_short_circuit:
  assumes "getText (document ed) = []"
    and "isEmpty (selection ed)"
    and "active (selection ed) = \<lparr>line = 0, character = 0\<rparr>"
    and "findLanguageConfig (languageId ed) = Some cfg"
    and "\<not> unset configModel" and "\<not> unset configApiKey"
  shows "requests (generateDocstring fetch configModel configApiKey (Some ed)) = []
       \<and> inserted (generateDocstring fetch configModel configApiKey (Some ed))
           = Some (emptyCodeResponse (promptSettings cfg))
       \<and> (\<exists>ctx. getCodeToDocument ed cfg = Inr (Some ctx) \<and>
              editorAfter (generateDocstring fetch configModel configApiKey (Some ed))
              = Some (insertDocstring ed (emptyCodeResponse (promptSettings cfg)) ctx cfg))
       \<and> shown (generateDocstring fetch configModel configApiKey (Some ed))
           = InformationMessage ''Docstring generated successfully!''"
proof -
  have t: "trim (getText (document ed)) = []"
    by (simp add: assms(1) trim_def)
  show ?thesis
    using assms(4,5,6) t
    by (simp add: generateDocstring_def module_context [OF assms(2,3)] Let_def)
qed

lemma find_python: "findLanguageConfig ''python'' = Some pythonConfig"
  by (simp add: findLanguageConfig_def LANGUAGE_CONFIGS_def pythonConfig_def)

lemma find_powershell: "findLanguageConfig ''powershell'' = Some powershellConfig"
  by (simp add: findLanguageConfig_def LANGUAGE_CONFIGS_def pythonConfig_def powershellConfig_def)

theorem empty_module_short_circuit_witness:
  "getText emptyDoc = []
   \<and> isEmpty (cursorAt 0 0)
   \<and> active (cursorAt 0 0) = \<lparr>line = 0, character = 0\<rparr>
   \<and> findLanguageConfig ''powershell'' = Some powershellConfig
   \<and> \<not> unset (Some ''gemini'') \<and> \<not> unset (Some ''key'')
   \<and> requests (generateDocstring (\<lambda>r. Rejected []) (Some ''gemini'') (Some ''key'')
        (Some \<lparr>document = emptyDoc, languageId = ''powershell'', selection = cursorAt 0 0\<rparr>)) = []
   \<and> inserted (generateDocstring (\<lambda>r. Rejected []) (Some ''gemini'') (Some ''key'')
        (Some \<lparr>document = emptyDoc, languageId = ''powershell'', selection = cursorAt 0 0\<rparr>))
       = Some (''.SYNOPSIS'' @ [NL] @ ''  A brief summary of the function.'')"
proof -
  let ?ed = "\<lparr>document = emptyDoc, languageId = ''powershell'', selection = cursorAt 0 0\<rparr>"
  have h1: "getText (document ?ed) = []" by (simp add: getText_def emptyDoc_def docLines_def)
  have h2: "isEmpty (selection ?ed)" by (simp add: cursorAt_def isEmpty_def)
  have h3: "active (selection ?ed) = \<lparr>line = 0, character = 0\<rparr>" by (simp add: cursorAt_def)
  have h4: "findLanguageConfig (languageId ?ed) = Some powershellConfig" by (simp add: find_powershell)
  have h5: "\<not> unset (Some ''gemini'')" and h6: "\<not> unset (Some ''key'')"
    by (simp_all add: unset_def)
  have r: "emptyCodeResponse (promptSettings powershellConfig)
           = ''.SYNOPSIS'' @ [NL] @ ''  A brief summary of the function.''"
    by (simp add: powershellConfig_def)
  from empty_module_short_circuit [OF h1 h2 h3 h4 h5 h6, of "\<lambda>r. Rejected []"]
  have "requests (generateDocstring (\<lambda>r. Rejected []) (Some ''gemini'') (Some ''key'') (Some ?ed)) = []"
    and "inserted (generateDocstring (\<lambda>r. Rejected []) (Some ''gemini'') (Some ''key'') (Some ?ed))
         = Some (emptyCodeResponse (promptSettings powershellConfig))"
    by blast+
  then show ?thesis
    using h1 h2 h3 h5 h6 find_powershell unfolding r by simp
qed

text \<open>
  C9. When the command reaches the backend and the backend answers with a status outside
  200..299, the command ends with the error message that carries the status and the text
  of the response body; the insertion does not run and the editor is left as it was.
\<close>

theorem backend_failure_leaves_buffer:
  assumes "findLanguageConfig (languageId ed) = Some cfg"
    and "model \<noteq> []" and "apiKey \<noteq> []"
    and "getCodeToDocument ed cfg = Inr (Some ctx)"
    and "\<not> (trim (getText (document ed)) = [] \<and> isModuleLevel ctx)"
    and "fetch (geminiRequest (endpointOf model) apiKey
                  (buildPrompt (code ctx) (isModuleLevel ctx) cfg))
         = Response status errorText json"
    and "\<not> (200 \<le> status \<and> status \<le> 299)"
  shows "generateDocstring fetch (Some model) (Some apiKey) (Some ed)
         = \<lparr>editorAfter = Some ed,
            requests = [geminiRequest (endpointOf model) apiKey
                          (buildPrompt (code ctx) (isModuleLevel ctx) cfg)],
            inserted = None,
            shown = ErrorMessage
              (''Error generating docstring: API request failed with status ''
               @ showNat status @ '': '' @ errorText)\<rparr>"
proof -
  have call: "callGeminiAPI fetch (endpointOf model) apiKey
                (buildPrompt (code ctx) (isModuleLevel ctx) cfg)
              = Inl (Error (''API request failed with status '' @ showNat status @ '': ''
                            @ errorText))"
    using assms(6,7) by (simp add: callGeminiAPI_def)
  have u: "\<not> unset (Some model)" "\<not> unset (Some apiKey)"
    using assms(2,3) by (simp_all add: unset_def)
  show ?thesis
    using assms(1,4,5) u call
    by (simp add: generateDocstring_def Let_def)
qed

lemma scenarioB_context:
  "getCodeToDocument scenarioBEditor pythonConfig = Inr (Some scenarioBContext)"
  by code_simp

lemma scenarioB_not_empty_module:
  "\<not> (trim (getText (document scenarioBEditor)) = [] \<and> isModuleLevel scenarioBContext)"
  by (simp add: scenarioBContext_def)

theorem backend_failure_leaves_buffer_witness:
  "findLanguageConfig (languageId scenarioBEditor) = Some pythonConfig
   \<and> getCodeToDocument scenarioBEditor pythonConfig = Inr (Some scenarioBContext)
   \<and> \<not> (200 \<le> (429 :: nat) \<and> (429 :: nat) \<le> 299)
   \<and> generateDocstring failingBackend (Some ''gemini'') (Some ''key'') (Some scenarioBEditor)
     = \<lparr>editorAfter = Some scenarioBEditor,
        requests = [geminiRequest (endpointOf ''gemini'') ''key''
                      (buildPrompt (code scenarioBContext) (isModuleLevel scenarioBContext)
                         pythonConfig)],
        inserted = None,
        shown = ErrorMessage
          ''Error generating docstring: API request failed with status 429: quota exceeded''\<rparr>"
proof -
  have f: "findLanguageConfig (languageId scenarioBEditor) = Some pythonConfig"
    by (simp add: scenarioBEditor_def find_python)
  have m: "''gemini'' \<noteq> []" and k: "''key'' \<noteq> []" by simp_all
  have b: "failingBackend (geminiRequest (endpointOf ''gemini'') ''key''
                  (buildPrompt (code scenarioBContext) (isModuleLevel scenarioBContext) pythonConfig))
           = Response 429 ''quota exceeded'' (ErrorObject ''quota exceeded'')"
    by (simp add: failingBackend_def)
  have s: "\<not> (200 \<le> (429 :: nat) \<and> (429 :: nat) \<le> 299)" by simp
  have n: "showNat 429 = ''429''" by code_simp
  have msg: "''Error generating docstring: API request failed with status '' @ showNat 429
             @ '': '' @ ''quota exceeded''
             = ''Error generating docstring: API request failed with status 429: quota exceeded''"
    unfolding n by simp
  show ?thesis
    using backend_failure_leaves_buffer
      [where fetch = failingBackend, OF f m k scenarioB_context scenarioB_not_empty_module b s]
      f scenarioB_context s
    unfolding msg by blast
qed

section \<open>The cleanup of the response\<close>

lemma substring_from_0: "substring s 0 i = take i s"
  by (simp add: substring_def Let_def min_def)

lemma lastIndexOf_occurs:
  "lastIndexOf p s = Some i \<Longrightarrow> i \<le> length s \<and> startsWith p (drop i s)"
proof (induction s arbitrary: i)
  case Nil
  then show ?case by (auto simp: startsWith_def split: if_splits)
next
  case (Cons c cs)
  then show ?case
    by (auto split: option.splits if_splits)
qed

lemma lastIndexOf_last:
  "lastIndexOf p s = Some i \<Longrightarrow> i < j \<Longrightarrow> j \<le> length s \<Longrightarrow> \<not> startsWith p (drop j s)"
proof (induction s arbitrary: i j)
  case Nil
  then show ?case by simp
next
  case (Cons c cs)
  show ?case
  proof (cases "lastIndexOf p cs")
    case None
    have none: "\<not> startsWith p (drop k cs)" if "k \<le> length cs" for k
      using None that
    proof (induction cs arbitrary: k)
      case Nil
      then show ?case by (auto simp: startsWith_def split: if_splits)
    next
      case (Cons d ds)
      then show ?case
        by (cases k) (auto split: option.splits if_splits)
    qed
    from Cons.prems obtain j' where j': "j = Suc j'" by (cases j) auto
    then show ?thesis using none [of j'] Cons.prems by simp
  next
    case (Some i')
    then have i: "i = Suc i'" using Cons.prems by simp
    from Cons.prems obtain j' where j': "j = Suc j'" by (cases j) auto
    show ?thesis
      using Cons.IH [OF Some, of j'] Cons.prems i j' by simp
  qed
qed

lemma cleanDocstring_truncates:
  assumes "lastIndexOf ''#>'' (stripOpenMarker (stripTripleQuotes (trim (stripFences docstring))))
           = Some i"
  shows "cleanDocstring docstring
         = trim (take i (stripOpenMarker (stripTripleQuotes (trim (stripFences docstring)))))"
  using assms by (simp add: cleanDocstring_def truncateAtLastClose_def substring_from_0)

text \<open>
  C10, as the code has it. The cleanup takes no configuration: whatever the registered
  language of the editor is (Python included), when the backend answers with a text that,
  after the fences, the outer triple quotes and a leading \<open><#\<close> are stripped, still
  contains \<open>#>\<close>, the docstring handed to the insertion is that text cut before the
  last \<open>#>\<close> and trimmed; everything from the last \<open>#>\<close> on is dropped.
\<close>

theorem cleanup_ignores_language:
  assumes "findLanguageConfig (languageId ed) = Some cfg"
    and "model \<noteq> []" and "apiKey \<noteq> []"
    and "getCodeToDocument ed cfg = Inr (Some ctx)"
    and "\<not> (trim (getText (document ed)) = [] \<and> isModuleLevel ctx)"
    and "fetch (geminiRequest (endpointOf model) apiKey
                  (buildPrompt (code ctx) (isModuleLevel ctx) cfg))
         = Response status body (Candidate docstring)"
    and "200 \<le> status \<and> status \<le> 299"
    and "lastIndexOf ''#>'' (stripOpenMarker (stripTripleQuotes (trim (stripFences docstring))))
         = Some i"
  shows "inserted (generateDocstring fetch (Some model) (Some apiKey) (Some ed))
         = Some (trim (take i (stripOpenMarker (stripTripleQuotes (trim (stripFences docstring))))))
       \<and> startsWith ''#>''
             (drop i (stripOpenMarker (stripTripleQuotes (trim (stripFences docstring)))))
       \<and> (\<forall>j. i < j \<and> j \<le> length (stripOpenMarker (stripTripleQuotes (trim (stripFences docstring))))
              \<longrightarrow> \<not> startsWith ''#>''
                    (drop j (stripOpenMarker (stripTripleQuotes (trim (stripFences docstring))))))
       \<and> editorAfter (generateDocstring fetch (Some model) (Some apiKey) (Some ed))
           = Some (insertDocstring ed
                     (trim (take i (stripOpenMarker (stripTripleQuotes (trim (stripFences docstring))))))
                     ctx cfg)"
proof -
  have call: "callGeminiAPI fetch (endpointOf model) apiKey
                (buildPrompt (code ctx) (isModuleLevel ctx) cfg)
              = Inr (cleanDocstring docstring)"
    using assms(6,7) by (simp add: callGeminiAPI_def)
  have u: "\<not> unset (Some model)" "\<not> unset (Some apiKey)"
    using assms(2,3) by (simp_all add: unset_def)
  have out: "generateDocstring fetch (Some model) (Some apiKey) (Some ed)
        = \<lparr>editorAfter = Some (insertDocstring ed (cleanDocstring docstring) ctx cfg),
           requests = [geminiRequest (endpointOf model) apiKey
                          (buildPrompt (code ctx) (isModuleLevel ctx) cfg)],
           inserted = Some (cleanDocstring docstring),
           shown = InformationMessage ''Docstring generated successfully!''\<rparr>"
    using assms(1,4,5) u call
    by (simp add: generateDocstring_def Let_def)
  show ?thesis
    using lastIndexOf_occurs [OF assms(8)] lastIndexOf_last [OF assms(8)]
    by (simp add: out cleanDocstring_truncates [OF assms(8)])
qed

theorem cleanup_ignores_language_witness:
  "findLanguageConfig (languageId scenarioBEditor) = Some pythonConfig
   \<and> getCodeToDocument scenarioBEditor pythonConfig = Inr (Some scenarioBContext)
   \<and> lastIndexOf ''#>'' (stripOpenMarker (stripTripleQuotes (trim (stripFences echoedAnswer))))
       = Some 10
   \<and> inserted (generateDocstring (echoingBackend echoedAnswer) (Some ''gemini'') (Some ''key'')
                  (Some scenarioBEditor))
       = Some ''Return x.''"
proof -
  let ?t = "stripOpenMarker (stripTripleQuotes (trim (stripFences echoedAnswer)))"
  have f: "findLanguageConfig (languageId scenarioBEditor) = Some pythonConfig"
    by (simp add: scenarioBEditor_def find_python)
  have m: "''gemini'' \<noteq> []" and k: "''key'' \<noteq> []" by simp_all
  have b: "echoingBackend echoedAnswer (geminiRequest (endpointOf ''gemini'') ''key''
                  (buildPrompt (code scenarioBContext) (isModuleLevel scenarioBContext) pythonConfig))
           = Response 200 [] (Candidate echoedAnswer)"
    by (simp add: echoingBackend_def)
  have s: "200 \<le> (200 :: nat) \<and> (200 :: nat) \<le> 299" by simp
  have l: "lastIndexOf ''#>'' ?t = Some 10" by code_simp
  have r: "trim (take 10 ?t) = ''Return x.''" by code_simp
  from cleanup_ignores_language
      [where fetch = "echoingBackend echoedAnswer", OF f m k scenarioB_context
         scenarioB_not_empty_module b s l]
  have "inserted (generateDocstring (echoingBackend echoedAnswer) (Some ''gemini'') (Some ''key'')
                  (Some scenarioBEditor)) = Some (trim (take 10 ?t))"
    by blast
  then show ?thesis
    using f scenarioB_context l unfolding r by blast
qed

text \<open>
  The claim counts the \<open>#>\<close> in the text as it is after the fences and the triple
  quotes are stripped. The leading \<open><#\<close> is stripped before the last \<open>#>\<close> is
  looked for: in \<open><#>hello\<close> the only \<open>#>\<close> shares its \<open>#\<close> with the
  leading marker, so nothing is cut and the text after it stays.
\<close>

theorem cleanup_ignores_language_counterexample:
  "lastIndexOf ''#>'' (stripTripleQuotes (trim (stripFences ''<#>hello''))) = Some 1
   \<and> lastIndexOf ''#>'' (stripOpenMarker (stripTripleQuotes (trim (stripFences ''<#>hello''))))
       = None
   \<and> cleanDocstring ''<#>hello'' = ''>hello''
   \<and> inserted (generateDocstring (echoingBackend ''<#>hello'') (Some ''gemini'') (Some ''key'')
                  (Some scenarioBEditor))
       = Some ''>hello''"
  by code_simp

lemma startsWith_prefix: "startsWith p s = prefix p s"
  unfolding startsWith_def prefix_def by (metis append_take_drop_id append_eq_conv_conj)

lemma startsWith_fence_python: "startsWith ''```python'' s \<Longrightarrow> startsWith ''```'' s"
  unfolding startsWith_prefix by (metis append_prefixD append_Cons append_Nil)

lemma startsWith_fence_powershell: "startsWith ''```powershell'' s \<Longrightarrow> startsWith ''```'' s"
  unfolding startsWith_prefix by (metis append_prefixD append_Cons append_Nil)

lemma stripFences_no_fence:
  "\<not> startsWith ''```'' (c # cs) \<Longrightarrow> stripFences (c # cs) = c # stripFences cs"
  using startsWith_fence_python [of "c # cs"] startsWith_fence_powershell [of "c # cs"]
  by (auto simp: stripFences.simps(2))

lemma stripFences_head:
  assumes "stripFences cs = x # r"
  shows "startsWith ''```'' cs \<or> (\<exists>cs'. cs = x # cs' \<and> r = stripFences cs')"
proof (cases cs)
  case Nil
  then show ?thesis using assms by simp
next
  case (Cons c cs')
  show ?thesis
  proof (cases "startsWith ''```'' cs")
    case True
    then show ?thesis by simp
  next
    case False
    then show ?thesis
      using assms Cons stripFences_no_fence [of c cs'] by simp
  qed
qed


lemma startsWith_fence_Cons:
  "startsWith ''```'' (c # cs) = (c = CHR 0x60 \<and> startsWith ''``'' cs)"
  by (auto simp: startsWith_def)

lemma stripFences_two_ticks:
  assumes "startsWith ''``'' (stripFences cs)"
  shows "startsWith ''``'' cs"
proof -
  from assms obtain r where r: "stripFences cs = CHR 0x60 # CHR 0x60 # r"
    by (cases "stripFences cs"; cases "tl (stripFences cs)") (auto simp: startsWith_def)
  from stripFences_head [OF r] show ?thesis
  proof
    assume "startsWith ''```'' cs"
    then show ?thesis by (cases cs; cases "tl cs") (auto simp: startsWith_def)
  next
    assume "\<exists>cs'. cs = CHR 0x60 # cs' \<and> CHR 0x60 # r = stripFences cs'"
    then obtain cs' where cs: "cs = CHR 0x60 # cs'" and r': "stripFences cs' = CHR 0x60 # r"
      by auto
    from stripFences_head [OF r'] show ?thesis
    proof
      assume "startsWith ''```'' cs'"
      then show ?thesis using cs by (cases cs'; cases "tl cs'") (auto simp: startsWith_def)
    next
      assume "\<exists>cs''. cs' = CHR 0x60 # cs'' \<and> r = stripFences cs''"
      then show ?thesis using cs by (auto simp: startsWith_def)
    qed
  qed
qed

lemma stripFences_fence_free: "\<not> sublist ''```'' (stripFences s)"
proof (induction s rule: stripFences.induct)
  case 1
  show ?case by simp
next
  case (2 c cs)
  show ?case
  proof (cases "startsWith ''```'' (c # cs)")
    case True
    then show ?thesis
      using 2 by (auto simp: stripFences.simps(2))
  next
    case False
    then have nopy: "\<not> startsWith ''```python'' (c # cs)"
      and nops: "\<not> startsWith ''```powershell'' (c # cs)"
      using startsWith_fence_python startsWith_fence_powershell by blast+
    have eq: "stripFences (c # cs) = c # stripFences cs"
      using False by (rule stripFences_no_fence)
    have ih: "\<not> sublist ''```'' (stripFences cs)"
      using 2(4) [OF nopy nops False] .
    have "\<not> startsWith ''```'' (c # stripFences cs)"
      using False stripFences_two_ticks [of cs] unfolding startsWith_fence_Cons by blast
    then show ?thesis
      using ih unfolding eq by (simp add: sublist_Cons_right startsWith_prefix)
  qed
qed

lemma stripFences_id:
  "\<not> sublist ''```'' s \<Longrightarrow> stripFences s = s"
proof (induction s)
  case Nil
  show ?case by simp
next
  case (Cons c cs)
  from Cons.prems have np: "\<not> startsWith ''```'' (c # cs)" and ns: "\<not> sublist ''```'' cs"
    by (auto simp: sublist_Cons_right startsWith_prefix)
  show ?case
    using stripFences_no_fence [OF np] Cons.IH [OF ns] by simp
qed


lemma trim_sublist: "sublist (trim s) s"
proof -
  have "sublist (dropWhile isWhiteSpace (rev (dropWhile isWhiteSpace s))) (rev (dropWhile isWhiteSpace s))"
    by (rule sublist_dropWhile)
  then have "sublist (trim s) (dropWhile isWhiteSpace s)"
    unfolding trim_def by (metis rev_rev_ident sublist_rev)
  then show ?thesis
    using sublist_dropWhile sublist_order.order_trans by blast
qed

lemma dropWhile_id: "s = [] \<or> \<not> P (hd s) \<Longrightarrow> dropWhile P s = s"
  by (cases s) auto

lemma dropWhile_rev_head:
  assumes "s = [] \<or> \<not> P (hd s)"
  shows "rev (dropWhile P (rev s)) = [] \<or> \<not> P (hd (rev (dropWhile P (rev s))))"
proof (cases s)
  case Nil
  then show ?thesis by simp
next
  case (Cons c cs)
  then have nP: "\<not> P c" using assms by simp
  have "rev s = takeWhile P (rev s) @ dropWhile P (rev s)" by simp
  then have "s = rev (dropWhile P (rev s)) @ rev (takeWhile P (rev s))"
    by (metis rev_append rev_rev_ident)
  moreover have "dropWhile P (rev s) \<noteq> []"
    using Cons nP by (auto simp: dropWhile_eq_Nil_conv)
  ultimately have "hd (rev (dropWhile P (rev s))) = hd s"
    by (metis hd_append2 rev_is_Nil_conv)
  then show ?thesis using Cons nP by simp
qed

lemma trim_idem: "trim (trim s) = trim s"
proof -
  let ?u = "dropWhile isWhiteSpace s"
  let ?t = "rev (dropWhile isWhiteSpace (rev ?u))"
  have u: "?u = [] \<or> \<not> isWhiteSpace (hd ?u)"
    using hd_dropWhile [of isWhiteSpace s] by blast
  have h: "?t = [] \<or> \<not> isWhiteSpace (hd ?t)"
    using dropWhile_rev_head [where P = isWhiteSpace and s = "?u", OF u] .
  have l: "dropWhile isWhiteSpace (rev ?u) = [] \<or> \<not> isWhiteSpace (hd (dropWhile isWhiteSpace (rev ?u)))"
    using hd_dropWhile [of isWhiteSpace "rev ?u"] by blast
  have "dropWhile isWhiteSpace ?t = ?t"
    using dropWhile_id [where P = isWhiteSpace and s = "?t", OF h] .
  moreover have "dropWhile isWhiteSpace (rev ?t) = rev ?t"
    using dropWhile_id [where P = isWhiteSpace and s = "dropWhile isWhiteSpace (rev ?u)", OF l]
    by simp
  ultimately show ?thesis by (simp add: trim_def)
qed

lemma trim_sublist_of: "sublist x s \<Longrightarrow> sublist (trim x) s"
  using trim_sublist sublist_order.order_trans by blast

lemma substring_sublist: "sublist (substring s a b) s"
  unfolding substring_def Let_def
  using sublist_take sublist_drop sublist_order.order_trans by blast

lemma stripTripleQuotes_sublist: "sublist (stripTripleQuotes s) s"
  unfolding stripTripleQuotes_def
  by (simp add: trim_sublist_of substring_sublist)

lemma stripOpenMarker_sublist: "sublist (stripOpenMarker s) s"
  unfolding stripOpenMarker_def
  by (simp add: trim_sublist_of)

lemma truncateAtLastClose_sublist: "sublist (truncateAtLastClose s) s"
  unfolding truncateAtLastClose_def
  by (simp add: trim_sublist_of substring_sublist split: option.splits)

lemma cleanDocstring_sublist: "sublist (cleanDocstring s) (stripFences s)"
  unfolding cleanDocstring_def
  using truncateAtLastClose_sublist stripOpenMarker_sublist stripTripleQuotes_sublist
    trim_sublist sublist_order.order_trans
  by meson

lemma cleanDocstring_fence_free: "\<not> sublist ''```'' (cleanDocstring s)"
  using cleanDocstring_sublist stripFences_fence_free sublist_order.order_trans by blast

lemma cleanDocstring_trimmed: "trim (cleanDocstring s) = cleanDocstring s"
  by (auto simp: cleanDocstring_def truncateAtLastClose_def stripOpenMarker_def
      stripTripleQuotes_def trim_idem split: option.splits)

lemma cleanDocstring_first_stage:
  "trim (stripFences (cleanDocstring s)) = cleanDocstring s"
  by (simp add: stripFences_id [OF cleanDocstring_fence_free] cleanDocstring_trimmed)

text \<open>
  C4, as the code has it. The cleanup strips one layer at each application: one outer pair
  of triple quotes, one leading \<open><#\<close>, the text from the last \<open>#>\<close> on. It is
  idempotent on every response whose cleaned text carries no further layer: when the
  result of the cleanup does not both start and end with triple quotes, does not start with
  \<open><#\<close> and does not contain \<open>#>\<close>, the cleanup of the result is the result.
\<close>

theorem cleanup_idempotent_on_clean_text:
  assumes \<open>\<not> (startsWith ''"""'' (cleanDocstring s) \<and> endsWith ''"""'' (cleanDocstring s))\<close>
    and "\<not> startsWith ''<#'' (cleanDocstring s)"
    and "lastIndexOf ''#>'' (cleanDocstring s) = None"
  shows "cleanDocstring (cleanDocstring s) = cleanDocstring s"
proof -
  have q: "stripTripleQuotes (cleanDocstring s) = cleanDocstring s"
    using assms(1) unfolding stripTripleQuotes_def by (rule if_not_P)
  have m: "stripOpenMarker (cleanDocstring s) = cleanDocstring s"
    using assms(2) by (simp add: stripOpenMarker_def)
  have c: "truncateAtLastClose (cleanDocstring s) = cleanDocstring s"
    using assms(3) by (simp add: truncateAtLastClose_def)
  have "cleanDocstring (cleanDocstring s)
        = truncateAtLastClose (stripOpenMarker (stripTripleQuotes
            (trim (stripFences (cleanDocstring s)))))"
    by (simp add: cleanDocstring_def)
  then show ?thesis
    by (simp add: cleanDocstring_first_stage q m c)
qed

theorem cleanup_idempotent_on_clean_text_witness:
  \<open>cleanDocstring fencedAnswer = ''Return x.''
   \<and> \<not> (startsWith ''"""'' (cleanDocstring fencedAnswer)
        \<and> endsWith ''"""'' (cleanDocstring fencedAnswer))
   \<and> \<not> startsWith ''<#'' (cleanDocstring fencedAnswer)
   \<and> lastIndexOf ''#>'' (cleanDocstring fencedAnswer) = None
   \<and> cleanDocstring (cleanDocstring fencedAnswer) = cleanDocstring fencedAnswer\<close>
proof -
  have v: "cleanDocstring fencedAnswer = ''Return x.''" by code_simp
  have h1: \<open>\<not> (startsWith ''"""'' (cleanDocstring fencedAnswer)
        \<and> endsWith ''"""'' (cleanDocstring fencedAnswer))\<close>
    unfolding v by (simp add: startsWith_def)
  have h2: "\<not> startsWith ''<#'' (cleanDocstring fencedAnswer)"
    unfolding v by (simp add: startsWith_def)
  have h3: "lastIndexOf ''#>'' (cleanDocstring fencedAnswer) = None"
    unfolding v by code_simp
  show ?thesis
    using cleanup_idempotent_on_clean_text [OF h1 h2 h3] v h1 h2 h3 by blast
qed

text \<open>A response wrapped in two pairs of triple quotes loses one pair at each application.\<close>

theorem cleanup_idempotent_counterexample:
  "cleanDocstring sixQuotes = threeQuotes
   \<and> cleanDocstring (cleanDocstring sixQuotes) = ''a''
   \<and> threeQuotes \<noteq> ''a''"
  by code_simp

section \<open>Insertion is a splice\<close>
















end
